theory Spec2Isabelle
  imports Complex_Main "HOL-Library.List_Lexorder" "HOL-Library.Product_Lexorder"
begin

section \<open>Python strings\<close>

text \<open>
  A Python \<open>str\<close> is a sequence of Unicode code points; \<open>len\<close> counts code points and
  \<open>==\<close>, \<open><\<close> compare them lexicographically. A string is therefore a list of
  natural numbers, and \<open>pstr\<close> reads an ASCII literal. The two non-ASCII letters of the
  literals of \<open>app.py\<close> are written by their code points (U+00F1 and U+00F3).
\<close>

type_synonym pystr = "nat list"

definition pstr :: "string \<Rightarrow> pystr" where
  "pstr s = map of_char s"

text \<open>\<open>str.isspace\<close> on one code point: the white space that \<open>str.strip()\<close> removes.\<close>

definition py_isspace :: "nat \<Rightarrow> bool" where
  "py_isspace c =
     (c \<in> set [9, 10, 11, 12, 13, 28, 29, 30, 31, 32, 133, 160, 5760,
                8232, 8233, 8239, 8287, 12288]
      \<or> (8192 \<le> c \<and> c \<le> 8202))"

definition strip :: "pystr \<Rightarrow> pystr" where
  "strip s = rev (dropWhile py_isspace (rev (dropWhile py_isspace s)))"

text \<open>\<open>re.sub("^prefix", "", s)\<close> for a literal prefix: removed once, at the start only.\<close>

definition strip_prefix :: "pystr \<Rightarrow> pystr \<Rightarrow> pystr" where
  "strip_prefix p s = (if take (length p) s = p then drop (length p) s else s)"

definition replace_char :: "nat \<Rightarrow> nat \<Rightarrow> pystr \<Rightarrow> pystr" where
  "replace_char a b s = map (\<lambda>c. if c = a then b else c) s"

text \<open>\<open>" ".join(xs)\<close>.\<close>

fun join_space :: "pystr list \<Rightarrow> pystr" where
  "join_space [] = []"
| "join_space [x] = x"
| "join_space (x # y # ys) = x @ [32] @ join_space (y # ys)"

text \<open>
  \<open>str.lower\<close>. ASCII capitals go to their small letters. Two code points outside ASCII
  have a lower-case form that contains an ASCII letter (U+0130 and the Kelvin sign
  U+212A); every other code point from 128 on stays outside ASCII under \<open>lower\<close>, and
  is left as it is here, which is all a comparison with an ASCII name can see.
\<close>

definition lower_cp :: "nat \<Rightarrow> pystr" where
  "lower_cp c =
     (if 65 \<le> c \<and> c \<le> 90 then [c + 32]
      else if c = 304 then [105, 775]
      else if c = 8490 then [107]
      else [c])"

definition py_lower :: "pystr \<Rightarrow> pystr" where
  "py_lower s = concat (map lower_cp s)"

section \<open>Tables\<close>

text \<open>
  A cell of the table \<open>read_csv\<close> returns is a missing value (\<open>NaN\<close>) or a scalar. The
  script reads scalars only through \<open>astype(str)\<close>, so a scalar is carried as the string
  that conversion gives for it, and the dtype of its column is kept in the series.
  \<open>NA\<close> is \<open>pd.NA\<close>, which line 138 writes.
\<close>

datatype cell = NaN | NA | Str pystr

fun cell_str :: "cell \<Rightarrow> pystr" where
  "cell_str NaN = pstr ''nan''"
| "cell_str NA = pstr ''<NA>''"
| "cell_str (Str s) = s"

fun notna :: "cell \<Rightarrow> bool" where
  "notna (Str s) = True"
| "notna NaN = False"
| "notna NA = False"

datatype dtype = Object | Numeric

datatype series = Series (dtype: dtype) (vals: "cell list")

text \<open>A DataFrame: its columns in order, each a label and a series.\<close>

type_synonym dataframe = "(pystr \<times> series) list"

datatype error = ValueError | KeyError | AttributeError

definition columns :: "dataframe \<Rightarrow> pystr list" where
  "columns df = map fst df"

definition len_df :: "dataframe \<Rightarrow> nat" where
  "len_df df = (case df of [] \<Rightarrow> 0 | (c, s) # rest \<Rightarrow> length (vals s))"

text \<open>
  \<open>df[c]\<close> used as a Series. A missing label raises \<open>KeyError\<close>. \<open>read_csv\<close> makes
  the labels of a header distinct, but the renaming of line 118 can give two columns one
  label; \<open>df[c]\<close> is then a frame, on which the Series accessors of the script
  (\<open>.str\<close>) raise \<open>AttributeError\<close>.
\<close>

definition getcol :: "dataframe \<Rightarrow> pystr \<Rightarrow> error + series" where
  "getcol df c =
     (case filter (\<lambda>p. fst p = c) df of
        [] \<Rightarrow> Inl KeyError
      | [p] \<Rightarrow> Inr (snd p)
      | p # q # ps \<Rightarrow> Inl AttributeError)"

text \<open>\<open>df[c] = s\<close>: overwrite the column in place, or append a new last column.\<close>

definition setcol :: "dataframe \<Rightarrow> pystr \<Rightarrow> series \<Rightarrow> dataframe" where
  "setcol df c s =
     (if c \<in> set (columns df) then map (\<lambda>p. if fst p = c then (c, s) else p) df
      else df @ [(c, s)])"

text \<open>\<open>df[mask]\<close>: the rows where the boolean mask holds, in every column.\<close>

definition mask_list :: "bool list \<Rightarrow> 'a list \<Rightarrow> 'a list" where
  "mask_list keep xs = map snd (filter fst (zip keep xs))"

definition select_rows :: "bool list \<Rightarrow> dataframe \<Rightarrow> dataframe" where
  "select_rows keep df =
     map (\<lambda>p. (fst p, Series (dtype (snd p)) (mask_list keep (vals (snd p))))) df"

section \<open>Normalizer (lines 110 to 138)\<close>

definition rename_map :: "(pystr \<times> pystr) list" where
  "rename_map =
     [(pstr ''Lugar'', pstr ''lugar''),
      (pstr ''SentLabel'', pstr ''sent_label''),
      (pstr ''SentScore'', pstr ''sent_score''),
      (pstr ''Topic'', pstr ''topic''),
      (pstr ''Review'', pstr ''review_text''),
      (pstr ''review'', pstr ''review_text'')]"

definition rename_label :: "pystr \<Rightarrow> pystr" where
  "rename_label c = (case map_of rename_map c of Some v \<Rightarrow> v | None \<Rightarrow> c)"

definition rename_columns :: "dataframe \<Rightarrow> dataframe" where
  "rename_columns df = map (\<lambda>p. (rename_label (fst p), snd p)) df"

text \<open>Lines 125 to 131, on one value after \<open>astype(str)\<close>.\<close>

definition clean_lugar :: "pystr \<Rightarrow> pystr" where
  "clean_lugar s =
     strip (replace_char 95 32 (strip_prefix (pstr ''rese'' @ [241] @ pstr ''as_'') s))"

definition sentinels :: "pystr list" where
  "sentinels = [pstr ''-1'', pstr ''-1.0'', [], pstr ''None'', pstr ''nan'']"

definition is_sentinel :: "pystr \<Rightarrow> bool" where
  "is_sentinel t = (t \<in> set sentinels)"

text \<open>Line 135 on one cell: \<open>astype(str)\<close>, then \<open>strip\<close>.\<close>

definition topic_str :: "cell \<Rightarrow> pystr" where
  "topic_str c = strip (cell_str c)"

definition clean_lugar_column :: "dataframe \<Rightarrow> error + dataframe" where
  "clean_lugar_column df =
     (case getcol df (pstr ''lugar'') of
        Inl e \<Rightarrow> Inl e
      | Inr l \<Rightarrow>
          Inr (setcol df (pstr ''lugar'')
                 (Series Object (map (\<lambda>c. Str (clean_lugar (cell_str c))) (vals l)))))"

definition normalize_topic :: "dataframe \<Rightarrow> error + dataframe" where
  "normalize_topic df =
     (if pstr ''topic'' \<in> set (columns df) then
        (case getcol df (pstr ''topic'') of
           Inl e \<Rightarrow> Inl e
         | Inr t \<Rightarrow>
             Inr (select_rows (map (\<lambda>c. \<not> is_sentinel (topic_str c)) (vals t))
                    (setcol df (pstr ''topic'')
                       (Series Object (map (\<lambda>c. Str (topic_str c)) (vals t))))))
      else Inr (setcol df (pstr ''topic'') (Series Object (replicate (len_df df) NA))))"

definition missing_mandatory :: "dataframe \<Rightarrow> bool" where
  "missing_mandatory df =
     (pstr ''lugar'' \<notin> set (columns df) \<or> pstr ''sent_label'' \<notin> set (columns df))"

definition normalizer :: "dataframe \<Rightarrow> error + dataframe" where
  "normalizer df0 =
     (let df = rename_columns df0 in
      if missing_mandatory df then Inl ValueError
      else (case clean_lugar_column df of
              Inl e \<Rightarrow> Inl e
            | Inr df1 \<Rightarrow> normalize_topic df1))"

section \<open>Aggregator (lines 150 to 161)\<close>

text \<open>
  One row of \<open>agg\<close>. \<open>pos_ratio\<close> is the quotient of line 160, a rational here;
  \<open>None\<close> is the \<open>NaN\<close> that \<open>0 / 0\<close> gives when a group has no label that is present.
\<close>

record loc_agg =
  lugar :: pystr
  mentions :: nat
  pos :: nat
  neg :: nat
  neu :: nat
  pos_ratio :: "rat option"

text \<open>The rows \<open>groupby("lugar")\<close> sees: the key and the label; a missing key is dropped.\<close>

fun keyed_row :: "cell \<times> cell \<Rightarrow> (pystr \<times> cell) list" where
  "keyed_row (Str k, v) = [(k, v)]"
| "keyed_row (NaN, v) = []"
| "keyed_row (NA, v) = []"

definition keyed_rows :: "(cell \<times> cell) list \<Rightarrow> (pystr \<times> cell) list" where
  "keyed_rows rows = concat (map keyed_row rows)"

definition group_of :: "pystr \<Rightarrow> (pystr \<times> 'a) list \<Rightarrow> 'a list" where
  "group_of k rows = map snd (filter (\<lambda>r. fst r = k) rows)"

text \<open>The group keys, each once, in ascending order (\<open>sort=True\<close>).\<close>

definition group_keys :: "(pystr \<times> 'a) list \<Rightarrow> pystr list" where
  "group_keys rows = sort (remdups (map fst rows))"

text \<open>\<open>"count"\<close> counts the values that are present; the three lambdas compare
  \<open>astype(str)\<close> of every value, present or not, with the literal.\<close>

definition count_present :: "cell list \<Rightarrow> nat" where
  "count_present xs = length (filter notna xs)"

definition count_label :: "pystr \<Rightarrow> cell list \<Rightarrow> nat" where
  "count_label lab xs = length (filter (\<lambda>c. cell_str c = lab) xs)"

definition ratio :: "nat \<Rightarrow> nat \<Rightarrow> rat option" where
  "ratio p m = (if m = 0 then None else Some (of_nat p / of_nat m))"

definition agg_group :: "pystr \<Rightarrow> cell list \<Rightarrow> loc_agg" where
  "agg_group k xs =
     \<lparr>lugar = k,
      mentions = count_present xs,
      pos = count_label (pstr ''POS'') xs,
      neg = count_label (pstr ''NEG'') xs,
      neu = count_label (pstr ''NEU'') xs,
      pos_ratio = ratio (count_label (pstr ''POS'') xs) (count_present xs)\<rparr>"

definition group_agg :: "(cell \<times> cell) list \<Rightarrow> loc_agg list" where
  "group_agg rows =
     map (\<lambda>k. agg_group k (group_of k (keyed_rows rows))) (group_keys (keyed_rows rows))"

text \<open>
  \<open>sort_values\<close>, \<open>NaN\<close> last. Descending order is ascending order of the negated key;
  the sort is stable.
\<close>

definition desc_key :: "loc_agg \<Rightarrow> (nat \<times> rat) \<times> int" where
  "desc_key a =
     ((case pos_ratio a of None \<Rightarrow> (1, 0) | Some r \<Rightarrow> (0, - r)), - int (mentions a))"

definition asc_key :: "loc_agg \<Rightarrow> nat \<times> rat" where
  "asc_key a = (case pos_ratio a of None \<Rightarrow> (1, 0) | Some r \<Rightarrow> (0, r))"

definition aggregator :: "(cell \<times> cell) list \<Rightarrow> loc_agg list" where
  "aggregator rows = sort_key desc_key (group_agg rows)"

section \<open>Selector (lines 164 to 167)\<close>

definition N :: nat where
  "N = 12"

definition top_of :: "nat \<Rightarrow> loc_agg list \<Rightarrow> loc_agg list" where
  "top_of n agg = take n agg"

definition resto_of :: "nat \<Rightarrow> loc_agg list \<Rightarrow> loc_agg list" where
  "resto_of n agg = filter (\<lambda>a. lugar a \<notin> set (map lugar (top_of n agg))) agg"

definition bottom_of :: "nat \<Rightarrow> loc_agg list \<Rightarrow> loc_agg list" where
  "bottom_of n agg = take n (sort_key asc_key (resto_of n agg))"

definition focus_of :: "nat \<Rightarrow> loc_agg list \<Rightarrow> loc_agg list" where
  "focus_of n agg = top_of n agg @ bottom_of n agg"

section \<open>Topic Summarizer (lines 29 to 81 and 172 to 185)\<close>

definition MIN_TOPIC_MENTIONS :: nat where
  "MIN_TOPIC_MENTIONS = 40"

definition topic_descriptions :: "(pystr \<times> pystr) list" where
  "topic_descriptions =
     [(pstr ''0'',
       pstr ''El arte, la historia y la cultura mexicana: museos y murales (Diego Rivera).''),
      (pstr ''1'',
       pstr ''Comprar boletos en l''
       @ [237]
       @ pstr ''nea para atracciones (Torre Latinoamericana, Anahuacalli...).''),
      (pstr ''2'',
       pstr ''Mercados vibrantes con artesan''
       @ [237]
       @ pstr ''as a precios accesibles.''),
      (pstr ''3'',
       pstr ''Palacio de Bellas Artes: ac''
       @ [250]
       @ pstr ''stica, conciertos y Ballet Folkl''
       @ [243]
       @ pstr ''rico.''),
      (pstr ''4'',
       pstr ''CDMX como destino obligatorio: Antropolog''
       @ [237]
       @ pstr ''a, Castillo de Chapultepec, MUNAL.''),
      (pstr ''5'',
       pstr ''Acuario Inbursa: experiencia interactiva, ping''
       @ [252]
       @ pstr ''inos y tiburones.''),
      (pstr ''6'',
       pstr ''Hoteles hist''
       @ [243]
       @ pstr ''ricos: servicio, comida y vistas (base para explorar).''),
      (pstr ''7'',
       pstr ''Bas''
       @ [237]
       @ pstr ''lica de Guadalupe: peregrinaci''
       @ [243]
       @ pstr ''n, arquitectura e historia.''),
      (pstr ''8'',
       pstr ''Cineteca Nacional: cine de arte asequible, proyecciones de calidad.''),
      (pstr ''9'',
       pstr ''Murales de Diego Rivera en el Palacio Nacional: gratuitos y emblem''
       @ [225]
       @ pstr ''ticos.''),
      (pstr ''10'',
       pstr ''Papalote Museo del Ni''
       @ [241]
       @ pstr ''o: interactivo para ni''
       @ [241]
       @ pstr ''os y adultos.''),
      (pstr ''11'',
       pstr ''Castillo de Chapultepec: edificio hist''
       @ [243]
       @ pstr ''rico con vistas impresionantes.''),
      (pstr ''12'',
       pstr ''Ciudad Universitaria (UNAM): patrimonio, murales y cultura.''),
      (pstr ''13'',
       pstr ''Zool''
       @ [243]
       @ pstr ''gico de Chapultepec: entrada gratuita, variedad de animales.''),
      (pstr ''14'',
       pstr ''Bosque de Chapultepec: parque grande ideal para picnic y paseos.''),
      (pstr ''15'',
       pstr ''Mercados de artesan''
       @ [237]
       @ pstr ''as: comparar precios y caminar para encontrar tesoros.''),
      (pstr ''16'',
       pstr ''Torre Latinoamericana: vistas panor''
       @ [225]
       @ pstr ''micas imperdibles.''),
      (pstr ''17'',
       pstr ''Museo Memoria y Tolerancia: exposici''
       @ [243]
       @ pstr ''n fuerte para concientizar.''),
      (pstr ''18'',
       pstr ''Bazar del S''
       @ [225]
       @ pstr ''bado en San ''
       @ [193]
       @ pstr ''ngel: artesan''
       @ [237]
       @ pstr ''as y ambiente bohemio.''),
      (pstr ''19'',
       pstr ''Palacio de Correos: edificio hist''
       @ [243]
       @ pstr ''rico con interior marm''
       @ [243]
       @ pstr ''reo.''),
      (pstr ''20'',
       pstr ''Comida en museos: buffets y desayunos recomendados.''),
      (pstr ''21'',
       pstr ''Paseo Dominical por Reforma: cierre vial para peatones y ciclistas.''),
      (pstr ''22'',
       pstr ''Museos tipo Papalote: actividades interactivas familiares.''),
      (pstr ''23'',
       pstr ''Six Flags M''
       @ [233]
       @ pstr ''xico: parque de diversiones con pase r''
       @ [225]
       @ pstr ''pido disponible.''),
      (pstr ''24'',
       pstr ''Cr''
       @ [237]
       @ pstr ''ticas al servicio en Six Flags: personal y plataformas de pago.''),
      (pstr ''25'',
       pstr ''Museo de Cera: figuras para fotos y entretenimiento.''),
      (pstr ''26'',
       pstr ''Lucha libre en Arena M''
       @ [233]
       @ pstr ''xico: show familiar y ambiente animado.''),
      (pstr ''27'',
       pstr ''Problemas de organizaci''
       @ [243]
       @ pstr ''n y comida en Six Flags.''),
      (pstr ''28'',
       pstr ''Tarjeta del Metrob''
       @ [250]
       @ pstr ''s: forma econ''
       @ [243]
       @ pstr ''mica de moverse por la ciudad.''),
      (pstr ''29'',
       pstr ''Coyoac''
       @ [225]
       @ pstr ''n: barrio encantador, churros y ambiente seguro.''),
      (pstr ''30'',
       pstr ''Atracciones de Six Flags con largas filas en temporada alta.''),
      (pstr ''31'',
       pstr ''Six Flags: variedad de juegos y monta''
       @ [241]
       @ pstr ''as rusas familiares.''),
      (pstr ''32'',
       pstr ''Cr''
       @ [237]
       @ pstr ''ticas a la comida de los buffets (mala y cara).''),
      (pstr ''33'',
       pstr ''Festival del Terror: aglomeraciones y largas filas.''),
      (pstr ''34'',
       pstr ''Z''
       @ [243]
       @ pstr ''calo: plaza principal con eventos y edificios hist''
       @ [243]
       @ pstr ''ricos.''),
      (pstr ''35'',
       pstr ''Templo Mayor: vestigio azteca fascinante en el centro.''),
      (pstr ''36'',
       pstr ''Museo Memoria y Tolerancia: reflexi''
       @ [243]
       @ pstr ''n sobre atrocidades humanas.''),
      (pstr ''37'',
       pstr ''Mercados de artesan''
       @ [237]
       @ pstr ''as: paciencia y habilidad para negociar.''),
      (pstr ''38'',
       pstr ''World Press Photo: exhibici''
       @ [243]
       @ pstr ''n temporal fotoperiod''
       @ [237]
       @ pstr ''stica.''),
      (pstr ''39'',
       pstr ''Polanco: zona exclusiva con restaurantes, pero tr''
       @ [225]
       @ pstr ''fico pesado.''),
      (pstr ''40'',
       pstr ''Mural hist''
       @ [243]
       @ pstr ''rico de Diego Rivera salvado tras 1985: traducci''
       @ [243]
       @ pstr ''n cultural.''),
      (pstr ''41'',
       pstr ''Problemas de limpieza y control animal en parques y colonias.'')]"

text \<open>\<open>d.get(k, default)\<close>.\<close>

definition dict_get :: "(pystr \<times> pystr) list \<Rightarrow> pystr \<Rightarrow> pystr \<Rightarrow> pystr" where
  "dict_get d k dflt = (case map_of d k of Some v \<Rightarrow> v | None \<Rightarrow> dflt)"

text \<open>
  \<open>short_label\<close> has one \<open>return\<close>, under \<open>if desc\<close>; where the description is
  empty the function falls off its end and returns Python's \<open>None\<close>.
\<close>

definition short_label :: "pystr \<Rightarrow> pystr option" where
  "short_label topic_id =
     (let desc = dict_get topic_descriptions topic_id []
      in if desc \<noteq> [] then Some (pstr ''T'' @ [243] @ pstr ''pico '' @ topic_id) else None)"

record topic_row =
  topic_id :: pystr
  label :: "pystr option"
  description :: pystr
  topic_mentions :: nat

definition map_topic_row :: "pystr \<times> nat \<Rightarrow> topic_row" where
  "map_topic_row row =
     (let tid = strip (fst row);
          desc = dict_get topic_descriptions tid
                   (dict_get topic_descriptions (pstr ''neg_'' @ tid) [])
      in \<lparr>topic_id = tid, label = short_label tid, description = desc,
          topic_mentions = snd row\<rparr>)"

text \<open>\<open>s.isin(xs)\<close> on one cell, for a list of strings.\<close>

fun cell_isin :: "pystr list \<Rightarrow> cell \<Rightarrow> bool" where
  "cell_isin xs (Str s) = (s \<in> set xs)"
| "cell_isin xs NaN = False"
| "cell_isin xs NA = False"

text \<open>\<open>groupby("topic").size()\<close> on rows of (topic, lugar): each key with its row count.\<close>

definition topic_counts :: "(cell \<times> cell) list \<Rightarrow> (pystr \<times> nat) list" where
  "topic_counts rows =
     map (\<lambda>k. (k, length (group_of k (keyed_rows rows)))) (group_keys (keyed_rows rows))"

text \<open>
  Lines 172 to 185, on the rows (topic, lugar) of the normalized table and the locations
  of the focus set.
\<close>

definition treemap_df :: "(cell \<times> cell) list \<Rightarrow> pystr list \<Rightarrow> topic_row list" where
  "treemap_df rows focus_lugar =
     (if list_ex (\<lambda>r. notna (fst r)) rows then
        map map_topic_row
          (filter (\<lambda>kc. MIN_TOPIC_MENTIONS \<le> snd kc)
             (topic_counts (filter (\<lambda>r. cell_isin focus_lugar (snd r)) rows)))
      else [])"

section \<open>Column Resolver (lines 84 to 100)\<close>

definition candidate_names :: "pystr list" where
  "candidate_names =
     [pstr ''review'', pstr ''review_text'', pstr ''review_lematizada'',
      pstr ''review_lemmatized'', pstr ''texto'', pstr ''comentario'']"

definition candidates :: "dataframe \<Rightarrow> pystr list" where
  "candidates df = filter (\<lambda>c. py_lower c \<in> set candidate_names) (columns df)"

text \<open>
  \<open>df[c].dtype\<close> is read for every label in turn; on a label that two columns carry
  \<open>df[c]\<close> is a frame, which has no \<open>dtype\<close>.
\<close>

definition text_cols :: "dataframe \<Rightarrow> error + (pystr \<times> series) list" where
  "text_cols df =
     (if distinct (columns df) then Inr (filter (\<lambda>p. dtype (snd p) = Object) df)
      else Inl AttributeError)"

definition sample_of :: "series \<Rightarrow> pystr list" where
  "sample_of s = take 200 (map cell_str (filter notna (vals s)))"

definition avg_len :: "pystr list \<Rightarrow> rat" where
  "avg_len sample =
     (if sample = [] then 0
      else of_nat (sum_list (map length sample)) / of_nat (length sample))"

text \<open>Line 96, in exact rational arithmetic; \<open>n\<close> is \<open>len(df)\<close>.\<close>

definition score :: "nat \<Rightarrow> series \<Rightarrow> rat" where
  "score n s = avg_len (sample_of s) * (of_nat (length (sample_of s)) / of_nat (max 1 n))"

text \<open>The loop of lines 93 to 99, with its two variables \<open>best\<close> and \<open>best_score\<close>.\<close>

fun best_loop :: "nat \<Rightarrow> (pystr \<times> series) list \<Rightarrow> pystr option \<Rightarrow> rat \<Rightarrow> pystr option" where
  "best_loop n [] best best_score = best"
| "best_loop n (p # ps) best best_score =
     (if best_score < score n (snd p)
      then best_loop n ps (Some (fst p)) (score n (snd p))
      else best_loop n ps best best_score)"

definition detect_review_column :: "dataframe \<Rightarrow> error + pystr option" where
  "detect_review_column df =
     (case candidates df of
        c # cs \<Rightarrow> Inr (Some c)
      | [] \<Rightarrow>
          (case text_cols df of
             Inl e \<Rightarrow> Inl e
           | Inr tc \<Rightarrow> Inr (best_loop (len_df df) tc None 0)))"

section \<open>The script, lines 106 to 201\<close>

text \<open>
  Lines 141 to 145. \<open>df.get("review_text", d)\<close> is the column itself where the table
  has that label, and the assignment then leaves the table as it is. An empty label is
  false under \<open>if review_col\<close>.
\<close>

definition assign_review_text :: "dataframe \<Rightarrow> pystr option \<Rightarrow> error + dataframe" where
  "assign_review_text df review_col =
     (if pstr ''review_text'' \<in> set (columns df) then Inr df
      else (case review_col of
              None \<Rightarrow>
                Inr (setcol df (pstr ''review_text'')
                       (Series Object (replicate (len_df df) (Str []))))
            | Some c \<Rightarrow>
                if c = [] then
                  Inr (setcol df (pstr ''review_text'')
                         (Series Object (replicate (len_df df) (Str []))))
                else (case getcol df c of
                        Inl e \<Rightarrow> Inl e
                      | Inr s \<Rightarrow> Inr (setcol df (pstr ''review_text'') s))))"

definition prepare :: "dataframe \<Rightarrow> error + dataframe" where
  "prepare df0 =
     (case normalizer df0 of
        Inl e \<Rightarrow> Inl e
      | Inr df \<Rightarrow>
          (case detect_review_column df of
             Inl e \<Rightarrow> Inl e
           | Inr review_col \<Rightarrow> assign_review_text df review_col))"

text \<open>
  Two columns of the prepared table, row by row. A label that two columns carry is
  possible here for \<open>sent_label\<close> only; what pandas then does in the aggregation is
  not modelled, and the error of \<open>getcol\<close> stands for it.
\<close>

definition rows_of :: "dataframe \<Rightarrow> pystr \<Rightarrow> pystr \<Rightarrow> error + (cell \<times> cell) list" where
  "rows_of df a b =
     (case getcol df a of
        Inl e \<Rightarrow> Inl e
      | Inr x \<Rightarrow>
          (case getcol df b of
             Inl e \<Rightarrow> Inl e
           | Inr y \<Rightarrow> Inr (zip (vals x) (vals y))))"

definition aggregate_df :: "dataframe \<Rightarrow> error + loc_agg list" where
  "aggregate_df df = map_sum id aggregator (rows_of df (pstr ''lugar'') (pstr ''sent_label''))"

definition topic_summary :: "dataframe \<Rightarrow> pystr list \<Rightarrow> error + topic_row list" where
  "topic_summary df focus_lugar =
     map_sum id (\<lambda>rows. treemap_df rows focus_lugar)
       (rows_of df (pstr ''topic'') (pstr ''lugar''))"

text \<open>\<open>fillna("").astype(str)\<close> on one cell.\<close>

fun fillna_empty :: "cell \<Rightarrow> cell" where
  "fillna_empty (Str s) = Str s"
| "fillna_empty NaN = Str []"
| "fillna_empty NA = Str []"

definition joined_text :: "cell list \<Rightarrow> pystr" where
  "joined_text xs = join_space (map cell_str (filter notna xs))"

text \<open>
  \<open>make_wordcloud_base64\<close>, with the global \<open>df["topic"]\<close> as its first argument.
  \<open>None\<close> is the placeholder; \<open>Some text\<close> is the text handed to the \<open>WordCloud\<close>
  library, whose rendering is outside this model.
\<close>

definition make_wordcloud_base64 :: "cell list \<Rightarrow> cell list \<Rightarrow> pystr option" where
  "make_wordcloud_base64 topic_vals text_series =
     (let text = joined_text text_series;
          text = (if strip text = [] \<and> list_ex notna topic_vals
                  then joined_text topic_vals else text)
      in if strip text = [] then None else Some text)"

definition wordcloud_of :: "dataframe \<Rightarrow> error + pystr option" where
  "wordcloud_of df =
     (case getcol df (pstr ''Review_Lematizada'') of
        Inl e \<Rightarrow> Inl e
      | Inr r \<Rightarrow>
          (case getcol df (pstr ''topic'') of
             Inl e \<Rightarrow> Inl e
           | Inr t \<Rightarrow> Inr (make_wordcloud_base64 (vals t) (map fillna_empty (vals r)))))"

record dashboard =
  agg :: "loc_agg list"
  top :: "loc_agg list"
  bottom :: "loc_agg list"
  focus :: "loc_agg list"
  treemap :: "topic_row list"
  wordcloud_src :: "pystr option"

definition pipeline :: "dataframe \<Rightarrow> error + dashboard" where
  "pipeline df0 =
     (case prepare df0 of
        Inl e \<Rightarrow> Inl e
      | Inr df \<Rightarrow>
          (case aggregate_df df of
             Inl e \<Rightarrow> Inl e
           | Inr a \<Rightarrow>
               (case topic_summary df (map lugar (focus_of N a)) of
                  Inl e \<Rightarrow> Inl e
                | Inr tm \<Rightarrow>
                    (case wordcloud_of df of
                       Inl e \<Rightarrow> Inl e
                     | Inr wc \<Rightarrow>
                         Inr \<lparr>agg = a, top = top_of N a, bottom = bottom_of N a,
                              focus = focus_of N a, treemap = tm, wordcloud_src = wc\<rparr>))))"

section \<open>Example tables\<close>

text \<open>A header with the sentiment column only.\<close>

definition no_lugar_table :: dataframe where
  "no_lugar_table = [(pstr ''SentLabel'', Series Object [Str (pstr ''POS'')])]"

text \<open>Rows (lugar, sent_label) with three locations.\<close>

definition three_places :: "(cell \<times> cell) list" where
  "three_places =
     [(Str (pstr ''A''), Str (pstr ''POS'')),
      (Str (pstr ''B''), Str (pstr ''NEG'')),
      (Str (pstr ''C''), Str (pstr ''NEU'')),
      (Str (pstr ''A''), Str (pstr ''NEG''))]"

text \<open>Two rows of one location; the second has no sentiment label.\<close>

definition missing_label_rows :: "(cell \<times> cell) list" where
  "missing_label_rows = [(Str (pstr ''A''), Str (pstr ''POS'')), (Str (pstr ''A''), NaN)]"

text \<open>Three rows of one location: a recognized label, another string, no label.\<close>

definition mixed_label_rows :: "(cell \<times> cell) list" where
  "mixed_label_rows =
     [(Str (pstr ''A''), Str (pstr ''POS'')),
      (Str (pstr ''A''), Str (pstr ''meh'')),
      (Str (pstr ''A''), NaN)]"

section \<open>Notions the claims use\<close>

text \<open>A label is recognized when the comparisons of lines 154 to 156 count it.\<close>

definition recognized :: "cell \<Rightarrow> bool" where
  "recognized c = (cell_str c \<in> set [pstr ''POS'', pstr ''NEG'', pstr ''NEU''])"

text \<open>The per-location aggregates of a raw table: lines 106 to 161.\<close>

definition location_aggregates :: "dataframe \<Rightarrow> error + loc_agg list" where
  "location_aggregates df0 =
     (case prepare df0 of Inl e \<Rightarrow> Inl e | Inr df \<Rightarrow> aggregate_df df)"

text \<open>The three rows of the example of the specification, under the names of the source file.\<close>

definition museo_table :: dataframe where
  "museo_table =
     [(pstr ''Lugar'',
       Series Object
         [Str (pstr ''rese'' @ [241] @ pstr ''as_MuseoX''),
          Str (pstr ''rese'' @ [241] @ pstr ''as_MuseoX''),
          Str (pstr ''rese'' @ [241] @ pstr ''as_MuseoX'')]),
      (pstr ''SentLabel'',
       Series Object [Str (pstr ''POS''), Str (pstr ''POS''), Str (pstr ''NEG'')])]"

text \<open>Forty rows (topic, lugar) of one location, with a topic that has no description.\<close>

definition unknown_topic_rows :: "(cell \<times> cell) list" where
  "unknown_topic_rows = replicate 40 (Str (pstr ''99''), Str (pstr ''A''))"

section \<open>Facts about tables\<close>

lemma getcol_not_ValueError: "getcol df c \<noteq> Inl ValueError"
  by (simp add: getcol_def split: list.splits)

lemma filter_label_setcol_map:
  "filter (\<lambda>p. fst p = c') (map (\<lambda>p. if fst p = c then (c, s) else p) df) =
     (if c' = c then map (\<lambda>p. (c, s)) (filter (\<lambda>p. fst p = c) df)
      else filter (\<lambda>p. fst p = c') df)"
  by (induction df) auto

lemma filter_label_absent: "c \<notin> set (columns df) \<Longrightarrow> filter (\<lambda>p. fst p = c) df = []"
  by (induction df) (auto simp: columns_def)

lemma filter_label_present: "c \<in> set (columns df) \<Longrightarrow> filter (\<lambda>p. fst p = c) df \<noteq> []"
  by (induction df) (auto simp: columns_def)

lemma getcol_absent: "c \<notin> set (columns df) \<Longrightarrow> getcol df c = Inl KeyError"
  by (simp add: getcol_def filter_label_absent)

lemma getcol_Inr_columns: "getcol df c = Inr s \<Longrightarrow> c \<in> set (columns df)"
  using getcol_absent [of c df] by auto

lemma getcol_setcol_other: "c' \<noteq> c \<Longrightarrow> getcol (setcol df c s) c' = getcol df c'"
  by (simp add: getcol_def setcol_def filter_label_setcol_map)

lemma getcol_setcol_same:
  "getcol (setcol df c s) c =
     (case getcol df c of
        Inr x \<Rightarrow> Inr s
      | Inl e \<Rightarrow> (if e = KeyError then Inr s else Inl AttributeError))"
proof (cases "c \<in> set (columns df)")
  case True
  then show ?thesis
    using filter_label_present [OF True]
    by (auto simp: getcol_def setcol_def filter_label_setcol_map split: list.splits)
next
  case False
  then show ?thesis
    by (simp add: getcol_def setcol_def filter_label_absent)
qed

lemma filter_label_select_rows:
  "filter (\<lambda>p. fst p = c) (select_rows keep df) = select_rows keep (filter (\<lambda>p. fst p = c) df)"
  by (induction df) (auto simp: select_rows_def)

lemma getcol_select_rows:
  "getcol (select_rows keep df) c =
     map_sum id (\<lambda>s. Series (dtype s) (mask_list keep (vals s))) (getcol df c)"
  unfolding getcol_def filter_label_select_rows
  by (simp add: select_rows_def split: list.splits)

lemma columns_select_rows: "columns (select_rows keep df) = columns df"
  by (simp add: columns_def select_rows_def comp_def)

lemma columns_setcol:
  "columns (setcol df c s) = (if c \<in> set (columns df) then columns df else columns df @ [c])"
  by (induction df) (auto simp: columns_def setcol_def)

lemma set_columns_setcol: "set (columns (setcol df c s)) = insert c (set (columns df))"
  by (auto simp: columns_setcol)

lemma clean_lugar_column_not_ValueError: "clean_lugar_column df \<noteq> Inl ValueError"
  using getcol_not_ValueError [of df "pstr ''lugar''"]
  by (auto simp: clean_lugar_column_def split: sum.splits)

lemma normalize_topic_not_ValueError: "normalize_topic df \<noteq> Inl ValueError"
  using getcol_not_ValueError [of df "pstr ''topic''"]
  by (auto simp: normalize_topic_def split: sum.splits)

section \<open>Normalizer: the validation of line 121\<close>

text \<open>
  Claim C8. The Normalizer raises the validation error (\<open>ValueError\<close>, line 122) if and
  only if, after the renaming of line 118, the label \<open>lugar\<close> or the label
  \<open>sent_label\<close> is not among the columns. No other step of the Normalizer raises
  that error.
\<close>

theorem C8_normalizer_validation:
  "normalizer df0 = Inl ValueError \<longleftrightarrow>
     (pstr ''lugar'' \<notin> set (columns (rename_columns df0))
      \<or> pstr ''sent_label'' \<notin> set (columns (rename_columns df0)))"
  using clean_lugar_column_not_ValueError normalize_topic_not_ValueError
  by (auto simp: normalizer_def Let_def missing_mandatory_def split: sum.splits)

theorem C8_normalizer_validation_witness:
  "pstr ''lugar'' \<notin> set (columns (rename_columns no_lugar_table))
   \<and> normalizer no_lugar_table = Inl ValueError"
proof -
  have "pstr ''lugar'' \<notin> set (columns (rename_columns no_lugar_table))"
    by (simp add: no_lugar_table_def rename_columns_def columns_def rename_label_def
          rename_map_def pstr_def)
  then show ?thesis
    using C8_normalizer_validation [of no_lugar_table] by simp
qed

section \<open>Facts about the Aggregator and the Selector\<close>

lemma lugar_agg_group: "lugar (agg_group k xs) = k"
  by (simp add: agg_group_def)

lemma lugar_group_agg: "map lugar (group_agg rows) = group_keys (keyed_rows rows)"
  by (simp add: group_agg_def comp_def lugar_agg_group)

lemma distinct_group_keys: "distinct (group_keys rows)"
  by (simp add: group_keys_def)

lemma set_group_keys: "set (group_keys rows) = fst ` set rows"
  by (simp add: group_keys_def)

lemma length_group_keys: "length (group_keys rows) = card (fst ` set rows)"
  unfolding group_keys_def
  by (simp only: length_sort length_remdups_card_conv set_map)

lemma distinct_map_sort_key: "distinct (map f (sort_key g xs)) = distinct (map f xs)"
  by (simp add: distinct_map)

lemma distinct_lugar_aggregator: "distinct (map lugar (aggregator rows))"
  by (simp add: aggregator_def distinct_map_sort_key lugar_group_agg distinct_group_keys)

lemma set_lugar_aggregator: "lugar ` set (aggregator rows) = fst ` set (keyed_rows rows)"
proof -
  have "lugar ` set (aggregator rows) = set (map lugar (group_agg rows))"
    by (simp add: aggregator_def)
  then show ?thesis by (simp only: lugar_group_agg set_group_keys)
qed

lemma length_aggregator: "length (aggregator rows) = card (fst ` set (keyed_rows rows))"
  by (simp add: aggregator_def group_agg_def length_group_keys)

lemma resto_not_in_top:
  "x \<in> set (resto_of n a) \<Longrightarrow> lugar x \<notin> lugar ` set (top_of n a)"
  by (simp add: resto_of_def)

lemma bottom_in_resto: "x \<in> set (bottom_of n a) \<Longrightarrow> x \<in> set (resto_of n a)"
proof -
  assume "x \<in> set (bottom_of n a)"
  then have "x \<in> set (sort_key asc_key (resto_of n a))"
    unfolding bottom_of_def by (rule in_set_takeD)
  then show ?thesis by (simp only: set_sort)
qed

lemma top_bottom_disjoint:
  "lugar ` set (top_of n a) \<inter> lugar ` set (bottom_of n a) = {}"
proof (rule ccontr)
  assume "lugar ` set (top_of n a) \<inter> lugar ` set (bottom_of n a) \<noteq> {}"
  then obtain k where k1: "k \<in> lugar ` set (top_of n a)"
    and k2: "k \<in> lugar ` set (bottom_of n a)"
    by blast
  from k2 obtain x where x: "x \<in> set (bottom_of n a)" and kx: "k = lugar x" by blast
  from resto_not_in_top [OF bottom_in_resto [OF x]] k1 kx show False by simp
qed

lemma filter_not_in_take:
  assumes d: "distinct (map f xs)"
  shows "filter (\<lambda>a. f a \<notin> f ` set (take n xs)) xs = drop n xs"
proof -
  from d have "distinct (map f (take n xs @ drop n xs))" by simp
  then have disj: "f ` set (take n xs) \<inter> f ` set (drop n xs) = {}"
    unfolding map_append distinct_append by simp
  have a: "filter (\<lambda>a. f a \<notin> f ` set (take n xs)) (take n xs) = []"
    by (auto simp: filter_empty_conv)
  have b: "filter (\<lambda>a. f a \<notin> f ` set (take n xs)) (drop n xs) = drop n xs"
    using disj by (auto simp: filter_id_conv)
  have "filter (\<lambda>a. f a \<notin> f ` set (take n xs)) (take n xs @ drop n xs) = drop n xs"
    unfolding filter_append a b by simp
  then show ?thesis by simp
qed

lemma length_bottom_of:
  assumes "distinct (map lugar a)"
  shows "length (bottom_of n a) = min n (length a - min n (length a))"
proof -
  have "resto_of n a = drop n a"
    using filter_not_in_take [OF assms, of n] by (simp add: resto_of_def top_of_def)
  then show ?thesis by (simp add: bottom_of_def)
qed

lemma card_three_places: "card (fst ` set (keyed_rows three_places)) = 3"
proof -
  have "fst ` set (keyed_rows three_places) = {pstr ''A'', pstr ''B'', pstr ''C''}"
    by (auto simp: three_places_def keyed_rows_def)
  then show ?thesis by (simp add: pstr_def)
qed

section \<open>Selector: top and bottom\<close>

text \<open>
  Claim C5. Where the table has at least \<open>2 * n\<close> distinct locations, the first \<open>n\<close>
  aggregates (the top set) and the first \<open>n\<close> of the remainder by ascending ratio (the
  bottom set) share no location. The script takes \<open>n = N = 12\<close>.
\<close>

theorem C5_top_bottom_disjoint:
  "2 * n \<le> card (fst ` set (keyed_rows rows)) \<Longrightarrow>
   lugar ` set (top_of n (aggregator rows)) \<inter> lugar ` set (bottom_of n (aggregator rows)) = {}"
  by (rule top_bottom_disjoint)

theorem C5_top_bottom_disjoint_witness:
  "2 * 1 \<le> card (fst ` set (keyed_rows three_places))
   \<and> lugar ` set (top_of 1 (aggregator three_places))
       \<inter> lugar ` set (bottom_of 1 (aggregator three_places)) = {}"
proof -
  have h: "2 * 1 \<le> card (fst ` set (keyed_rows three_places))"
    by (simp add: card_three_places)
  show ?thesis
    using h C5_top_bottom_disjoint [OF h] by simp
qed

text \<open>
  Claim C10. For every table and every \<open>n\<close> the top and bottom sets share no location,
  whatever the number \<open>k\<close> of distinct locations, and the bottom set has
  \<open>min n (k - min n k)\<close> rows.
\<close>

theorem C10_bottom_size:
  "lugar ` set (top_of n (aggregator rows)) \<inter> lugar ` set (bottom_of n (aggregator rows)) = {}
   \<and> length (bottom_of n (aggregator rows)) =
       min n (card (fst ` set (keyed_rows rows)) - min n (card (fst ` set (keyed_rows rows))))"
  using top_bottom_disjoint [of n "aggregator rows"]
    length_bottom_of [OF distinct_lugar_aggregator, of n rows]
  by (simp only: length_aggregator simp_thms)

theorem C10_bottom_size_witness:
  "length (bottom_of 2 (aggregator three_places)) = 1"
  using C10_bottom_size [of 2 three_places] by (simp add: card_three_places)

section \<open>Aggregator: mentions and the three counts\<close>

lemma label_facts:
  "pstr ''POS'' \<noteq> pstr ''NEG''" "pstr ''POS'' \<noteq> pstr ''NEU''" "pstr ''NEG'' \<noteq> pstr ''NEU''"
  "pstr ''nan'' \<noteq> pstr ''POS''" "pstr ''nan'' \<noteq> pstr ''NEG''" "pstr ''nan'' \<noteq> pstr ''NEU''"
  "pstr ''<NA>'' \<noteq> pstr ''POS''" "pstr ''<NA>'' \<noteq> pstr ''NEG''" "pstr ''<NA>'' \<noteq> pstr ''NEU''"
  by (simp_all add: pstr_def)

lemma count_split:
  "count_present xs =
     count_label (pstr ''POS'') xs + count_label (pstr ''NEG'') xs + count_label (pstr ''NEU'') xs
     + length (filter (\<lambda>c. notna c \<and> \<not> recognized c) xs)"
proof (induction xs)
  case Nil
  then show ?case by (simp add: count_present_def count_label_def)
next
  case (Cons c xs)
  then show ?case
    using label_facts
    by (cases c) (auto simp: count_present_def count_label_def recognized_def)
qed

lemma in_aggregator:
  assumes "a \<in> set (aggregator rows)"
  shows "a = agg_group (lugar a) (group_of (lugar a) (keyed_rows rows))"
proof -
  from assms have "a \<in> set (group_agg rows)" by (simp add: aggregator_def)
  then obtain k where "a = agg_group k (group_of k (keyed_rows rows))"
    by (auto simp: group_agg_def)
  then show ?thesis by (simp add: lugar_agg_group)
qed

lemma agg_group_counts:
  "mentions (agg_group k g) =
     pos (agg_group k g) + neg (agg_group k g) + neu (agg_group k g)
     + length (filter (\<lambda>c. notna c \<and> \<not> recognized c) g)"
  using count_split [of g] by (simp add: agg_group_def)

lemma filter_empty_iff_all:
  "(length (filter (\<lambda>c. notna c \<and> \<not> recognized c) g) = 0) =
     (\<forall>c \<in> set g. notna c \<longrightarrow> recognized c)"
  by (auto simp: filter_empty_conv)

text \<open>
  Claim C3, amended. \<open>mentions\<close> counts the labels that are present, so for every
  aggregate the three counts sum to at most \<open>mentions\<close>; the difference is the number of
  labels that are present and not recognized, and the sum equals \<open>mentions\<close> if and only
  if every label that is present is recognized. A row without a label is counted in
  neither.
\<close>

theorem C3_counts_le_mentions:
  assumes "a \<in> set (aggregator rows)"
  shows "mentions a =
           pos a + neg a + neu a
           + length (filter (\<lambda>c. notna c \<and> \<not> recognized c)
                       (group_of (lugar a) (keyed_rows rows)))
         \<and> pos a + neg a + neu a \<le> mentions a
         \<and> (pos a + neg a + neu a = mentions a \<longleftrightarrow>
              (\<forall>c \<in> set (group_of (lugar a) (keyed_rows rows)). notna c \<longrightarrow> recognized c))"
proof -
  let ?g = "group_of (lugar a) (keyed_rows rows)"
  let ?u = "length (filter (\<lambda>c. notna c \<and> \<not> recognized c) ?g)"
  have a: "a = agg_group (lugar a) ?g" by (rule in_aggregator [OF assms])
  have m: "mentions a = pos a + neg a + neu a + ?u"
    using agg_group_counts [of "lugar a" ?g] a by simp
  have e: "(?u = 0) = (\<forall>c \<in> set ?g. notna c \<longrightarrow> recognized c)"
    by (rule filter_empty_iff_all)
  from m have le: "pos a + neg a + neu a \<le> mentions a" by simp
  from m have "(pos a + neg a + neu a = mentions a) = (?u = 0)" by simp
  with e have iff: "(pos a + neg a + neu a = mentions a) =
      (\<forall>c \<in> set ?g. notna c \<longrightarrow> recognized c)" by simp
  from m le iff show ?thesis by simp
qed

lemmas agg_eval = aggregator_def group_agg_def keyed_rows_def group_keys_def group_of_def
  agg_group_def count_present_def count_label_def ratio_def pstr_def

lemma aggregator_mixed:
  "aggregator mixed_label_rows =
     [\<lparr>lugar = pstr ''A'', mentions = 2, pos = 1, neg = 0, neu = 0, pos_ratio = Some (1 / 2)\<rparr>]"
  by (simp add: mixed_label_rows_def agg_eval)

theorem C3_counts_le_mentions_witness:
  "\<lparr>lugar = pstr ''A'', mentions = 2, pos = 1, neg = 0, neu = 0, pos_ratio = Some (1 / 2)\<rparr>
     \<in> set (aggregator mixed_label_rows)
   \<and> length (filter (\<lambda>c. notna c \<and> \<not> recognized c)
               (group_of (pstr ''A'') (keyed_rows mixed_label_rows))) = 1"
proof -
  have h: "\<lparr>lugar = pstr ''A'', mentions = 2, pos = 1, neg = 0, neu = 0,
             pos_ratio = Some (1 / 2)\<rparr> \<in> set (aggregator mixed_label_rows)"
    by (simp add: aggregator_mixed)
  show ?thesis
    using h C3_counts_le_mentions [OF h] by simp
qed

text \<open>
  Claim C3 as stated fails on a row without a label: the location has two rows, one of
  them with a label that is none of the three values, and still the three counts sum to
  \<open>mentions\<close>, which is 1 and not the number of rows.
\<close>

theorem C3_counterexample:
  "aggregator missing_label_rows =
     [\<lparr>lugar = pstr ''A'', mentions = 1, pos = 1, neg = 0, neu = 0, pos_ratio = Some 1\<rparr>]
   \<and> group_of (pstr ''A'') (keyed_rows missing_label_rows) = [Str (pstr ''POS''), NaN]
   \<and> \<not> recognized NaN"
  by (simp add: missing_label_rows_def agg_eval recognized_def)

section \<open>The example of the specification\<close>

lemmas table_eval = columns_def getcol_def setcol_def select_rows_def mask_list_def len_df_def
  rename_columns_def rename_label_def rename_map_def missing_mandatory_def

lemmas string_eval = pstr_def strip_def strip_prefix_def replace_char_def py_isspace_def
  py_lower_def lower_cp_def

lemma clean_museo: "clean_lugar (pstr ''rese'' @ [241] @ pstr ''as_MuseoX'') = pstr ''MuseoX''"
  by (simp add: clean_lugar_def string_eval)

lemma normalizer_museo:
  "normalizer museo_table =
     Inr [(pstr ''lugar'',
           Series Object [Str (pstr ''MuseoX''), Str (pstr ''MuseoX''), Str (pstr ''MuseoX'')]),
          (pstr ''sent_label'',
           Series Object [Str (pstr ''POS''), Str (pstr ''POS''), Str (pstr ''NEG'')]),
          (pstr ''topic'', Series Object [NA, NA, NA])]"
  by (simp add: museo_table_def normalizer_def clean_lugar_column_def normalize_topic_def
        clean_lugar_def table_eval string_eval numeral_3_eq_3)

lemmas detect_eval = detect_review_column_def candidates_def candidate_names_def text_cols_def
  score_def sample_of_def avg_len_def

lemma prepare_museo:
  "prepare museo_table =
     Inr [(pstr ''lugar'',
           Series Object [Str (pstr ''MuseoX''), Str (pstr ''MuseoX''), Str (pstr ''MuseoX'')]),
          (pstr ''sent_label'',
           Series Object [Str (pstr ''POS''), Str (pstr ''POS''), Str (pstr ''NEG'')]),
          (pstr ''topic'', Series Object [NA, NA, NA]),
          (pstr ''review_text'',
           Series Object [Str (pstr ''MuseoX''), Str (pstr ''MuseoX''), Str (pstr ''MuseoX'')])]"
  unfolding prepare_def normalizer_museo
  by (simp add: detect_eval assign_review_text_def table_eval string_eval)

lemma aggregates_museo:
  "location_aggregates museo_table =
     Inr [\<lparr>lugar = pstr ''MuseoX'', mentions = 3, pos = 2, neg = 1, neu = 0,
           pos_ratio = Some (2 / 3)\<rparr>]"
  unfolding location_aggregates_def prepare_museo
  by (simp add: aggregate_df_def rows_of_def getcol_def agg_eval)

text \<open>
  Claim C4. On the three rows of the example the Normalizer gives the location
  \<open>MuseoX\<close> and the Aggregator the single aggregate with 3 mentions, 2 positive,
  1 negative, no neutral label and ratio 2/3.
\<close>

theorem C4_museo_example:
  "clean_lugar (pstr ''rese'' @ [241] @ pstr ''as_MuseoX'') = pstr ''MuseoX''
   \<and> location_aggregates museo_table =
       Inr [\<lparr>lugar = pstr ''MuseoX'', mentions = 3, pos = 2, neg = 1, neu = 0,
             pos_ratio = Some (2 / 3)\<rparr>]"
  using clean_museo aggregates_museo by (rule conjI)

theorem C4_museo_example_witness:
  "\<not> missing_mandatory (rename_columns museo_table)
   \<and> map_sum id (map mentions) (location_aggregates museo_table) = Inr [3]"
proof -
  have "\<not> missing_mandatory (rename_columns museo_table)"
    by (simp add: museo_table_def table_eval pstr_def)
  then show ?thesis
    using C4_museo_example by simp
qed

end
